theory Spec2Isabelle
  imports Main
begin

section \<open>Data model (types/index.ts)\<close>

text \<open>
  JavaScript strings are modelled as \<open>string\<close>; one \<open>char\<close> stands for one UTF-16
  code unit, so \<open>length\<close> is the \<open>.length\<close> of the source. A \<open>Date\<close> is its number
  of milliseconds since the epoch.
\<close>

type_synonym Date = nat

datatype DeviceType = AXIAL_FAN | DELUGE_VALVE | FIRE_PANEL | PUMP

datatype DeviceStatus = ONLINE | OFFLINE | MAINTENANCE | ERROR

record DeviceMetadata =
  location :: "string option"
  manufacturer :: "string option"
  model :: "string option"
  version :: "string option"

record Device =
  device_id :: string
  device_name :: string
  device_type :: DeviceType
  device_status :: DeviceStatus
  lastUpdate :: Date
  metadata :: DeviceMetadata

text \<open>\<open>Omit<Device, 'id'>\<close>, the argument of \<open>create\<close>.\<close>

record DeviceData =
  data_name :: string
  data_type :: DeviceType
  data_status :: DeviceStatus
  data_lastUpdate :: Date
  data_metadata :: DeviceMetadata

text \<open>
  \<open>Partial<Device>\<close>, the argument of \<open>update\<close>: every field may be absent. A property
  that is present but holds \<open>undefined\<close> is excluded by the declared types and is not
  part of the model.
\<close>

record PartialDevice =
  upd_id :: "string option"
  upd_name :: "string option"
  upd_type :: "DeviceType option"
  upd_status :: "DeviceStatus option"
  upd_lastUpdate :: "Date option"
  upd_metadata :: "DeviceMetadata option"

record DeviceUpdateRequest =
  req_name :: "string option"
  req_status :: "DeviceStatus option"
  req_metadata :: "DeviceMetadata option"

text \<open>
  Unstructured input (\<open>unknown\<close>) is a JSON value. The payload of a number plays no part
  in validation and is kept as an integer.
\<close>

datatype json =
  JNull
| JBool bool
| JNumber int
| JString string
| JArray "json list"
| JObject "(string \<times> json) list"

record ApiError =
  code :: string
  message :: string
  details :: "(string \<times> json) list option"

record 'a ApiResponse =
  success :: bool
  data :: "'a option"
  error :: "ApiError option"
  timestamp :: Date

text \<open>
  The error classes. \<open>err_class\<close> is the class the object was constructed from (what
  \<open>instanceof\<close> observes); the other fields are the properties the constructors set.
  A plain \<open>Error\<close> has neither \<open>code\<close>, \<open>statusCode\<close> nor \<open>field\<close>.
\<close>

datatype error_class = PlainError | DomainErrorClass | ValidationErrorClass | NotFoundErrorClass

record js_error =
  err_class :: error_class
  err_name :: string
  err_message :: string
  err_code :: "string option"
  err_statusCode :: "nat option"
  err_field :: "string option"

definition new_Error :: "string \<Rightarrow> js_error" where
  "new_Error msg =
     \<lparr>err_class = PlainError, err_name = ''Error'', err_message = msg,
      err_code = None, err_statusCode = None, err_field = None\<rparr>"

definition new_DomainError :: "string \<Rightarrow> string \<Rightarrow> nat \<Rightarrow> js_error" where
  "new_DomainError msg c sc =
     (new_Error msg)\<lparr>err_class := DomainErrorClass, err_code := Some c,
       err_statusCode := Some sc, err_name := ''DomainError''\<rparr>"

definition new_ValidationError :: "string \<Rightarrow> string option \<Rightarrow> js_error" where
  "new_ValidationError msg fld =
     (new_DomainError msg ''VALIDATION_ERROR'' 400)\<lparr>err_class := ValidationErrorClass,
       err_field := fld, err_name := ''ValidationError''\<rparr>"

definition new_NotFoundError :: "string \<Rightarrow> string \<Rightarrow> js_error" where
  "new_NotFoundError resource ident =
     (new_DomainError (resource @ '' with id '' @ [CHR 0x27] @ ident @ [CHR 0x27] @ '' not found'')
        ''NOT_FOUND'' 404)\<lparr>err_class := NotFoundErrorClass, err_name := ''NotFoundError''\<rparr>"

section \<open>The environment: logger, clock, random source\<close>

text \<open>
  The state every operation runs in. \<open>devices\<close> is the repository's backing store
  (its \<open>Map\<close>). \<open>logs\<close> records the calls made on the injected \<open>ILogger\<close>, in
  order (level and message; the context
  record passed along is not observed by any caller and is left out). The clock and the
  random source are oracles: the \<open>k\<close>-th reading of the clock returns \<open>clock k\<close>, the
  \<open>k\<close>-th draw returns \<open>random k\<close>, for arbitrary functions \<open>clock\<close> and \<open>random\<close>.
  A draw stands for \<open>Math.random().toString(36).substr(2, 9)\<close> as a whole: the
  floating-point number and its base-36 rendering are not modelled.
\<close>

datatype log_level = LogInfo | LogWarn | LogError

record 'r world =
  devices :: 'r
  logs :: "(log_level \<times> string) list"
  clock :: "nat \<Rightarrow> Date"
  ticks :: nat
  random :: "nat \<Rightarrow> string"
  draws :: nat

definition logger_info :: "string \<Rightarrow> 'r world \<Rightarrow> 'r world" where
  "logger_info msg w = w\<lparr>logs := logs w @ [(LogInfo, msg)]\<rparr>"

definition logger_error :: "string \<Rightarrow> 'r world \<Rightarrow> 'r world" where
  "logger_error msg w = w\<lparr>logs := logs w @ [(LogError, msg)]\<rparr>"

text \<open>\<open>new Date()\<close> and \<open>Date.now()\<close>: one reading of the clock.\<close>

definition new_Date :: "'r world \<Rightarrow> Date \<times> 'r world" where
  "new_Date w = (clock w (ticks w), w\<lparr>ticks := Suc (ticks w)\<rparr>)"

definition random_suffix :: "'r world \<Rightarrow> string \<times> 'r world" where
  "random_suffix w = (random w (draws w), w\<lparr>draws := Suc (draws w)\<rparr>)"

section \<open>The in-memory repository (repositories/device.repository.ts)\<close>

text \<open>
  A JavaScript \<open>Map\<close> keeps its entries in insertion order; \<open>set\<close> on a key that is
  present replaces the value in place, \<open>delete\<close> reports whether the key was present.
\<close>

type_synonym store = "(string \<times> Device) list"

definition Map_get :: "('k \<times> 'v) list \<Rightarrow> 'k \<Rightarrow> 'v option" where
  "Map_get m k = map_of m k"

fun Map_set :: "('k \<times> 'v) list \<Rightarrow> 'k \<Rightarrow> 'v \<Rightarrow> ('k \<times> 'v) list" where
  "Map_set [] k v = [(k, v)]"
| "Map_set ((k', v') # m) k v =
     (if k' = k then (k, v) # m else (k', v') # Map_set m k v)"

definition Map_delete :: "('k \<times> 'v) list \<Rightarrow> 'k \<Rightarrow> bool \<times> ('k \<times> 'v) list" where
  "Map_delete m k = (k \<in> set (map fst m), filter (\<lambda>kv. fst kv \<noteq> k) m)"

definition Map_values :: "('k \<times> 'v) list \<Rightarrow> 'v list" where
  "Map_values m = map snd m"

text \<open>Decimal rendering of a number inside a template literal.\<close>

definition digit_char :: "nat \<Rightarrow> char" where
  "digit_char d = char_of (48 + d)"

fun string_of_nat :: "nat \<Rightarrow> string" where
  "string_of_nat n =
     (if n < 10 then [digit_char n] else string_of_nat (n div 10) @ [digit_char (n mod 10)])"

declare string_of_nat.simps [simp del]

definition findById :: "string \<Rightarrow> store world \<Rightarrow> Device option \<times> store world" where
  "findById ident w =
     (let w1 = logger_info ''Finding device by ID'' w
      in (Map_get (devices w1) ident, w1))"

definition findAll :: "store world \<Rightarrow> Device list \<times> store world" where
  "findAll w =
     (let w1 = logger_info ''Finding all devices'' w
      in (Map_values (devices w1), w1))"

definition generateId :: "'r world \<Rightarrow> string \<times> 'r world" where
  "generateId w =
     (let (t, w1) = new_Date w;
          (r, w2) = random_suffix w1
      in (''device_'' @ string_of_nat t @ ''_'' @ r, w2))"

definition create :: "DeviceData \<Rightarrow> store world \<Rightarrow> Device \<times> store world" where
  "create deviceData w =
     (let (ident, w1) = generateId w;
          device = \<lparr>device_id = ident, device_name = data_name deviceData,
                    device_type = data_type deviceData, device_status = data_status deviceData,
                    lastUpdate = data_lastUpdate deviceData,
                    metadata = data_metadata deviceData\<rparr>;
          w2 = w1\<lparr>devices := Map_set (devices w1) ident device\<rparr>;
          w3 = logger_info ''Device created'' w2
      in (device, w3))"

text \<open>Object spread \<open>{...existing, ...updates}\<close>: a field present in \<open>updates\<close> wins.\<close>

definition spread :: "Device \<Rightarrow> PartialDevice \<Rightarrow> Device" where
  "spread existing updates =
     \<lparr>device_id = (case upd_id updates of Some v \<Rightarrow> v | None \<Rightarrow> device_id existing),
      device_name = (case upd_name updates of Some v \<Rightarrow> v | None \<Rightarrow> device_name existing),
      device_type = (case upd_type updates of Some v \<Rightarrow> v | None \<Rightarrow> device_type existing),
      device_status = (case upd_status updates of Some v \<Rightarrow> v | None \<Rightarrow> device_status existing),
      lastUpdate = (case upd_lastUpdate updates of Some v \<Rightarrow> v | None \<Rightarrow> lastUpdate existing),
      metadata = (case upd_metadata updates of Some v \<Rightarrow> v | None \<Rightarrow> metadata existing)\<rparr>"

definition update :: "string \<Rightarrow> PartialDevice \<Rightarrow> store world \<Rightarrow> Device option \<times> store world" where
  "update ident updates w =
     (case Map_get (devices w) ident of
        None \<Rightarrow> (None, w)
      | Some existing \<Rightarrow>
          (let (now, w1) = new_Date w;
               updated = (spread existing updates)\<lparr>device_id := ident, lastUpdate := now\<rparr>;
               w2 = w1\<lparr>devices := Map_set (devices w1) ident updated\<rparr>;
               w3 = logger_info ''Device updated'' w2
           in (Some updated, w3)))"

definition delete :: "string \<Rightarrow> store world \<Rightarrow> bool \<times> store world" where
  "delete ident w =
     (let (deleted, m) = Map_delete (devices w) ident;
          w1 = w\<lparr>devices := m\<rparr>
      in if deleted then (True, logger_info ''Device deleted'' w1) else (False, w1))"

definition sampleDevices :: "Date \<Rightarrow> Date \<Rightarrow> Device list" where
  "sampleDevices t1 t2 =
     [\<lparr>device_id = ''device_001'', device_name = ''Axial Fan A1'', device_type = AXIAL_FAN,
       device_status = ONLINE, lastUpdate = t1,
       metadata = \<lparr>location = Some ''Building A'', manufacturer = Some ''TechCorp'',
                   model = Some ''AF-100'', version = Some ''1.2.3''\<rparr>\<rparr>,
      \<lparr>device_id = ''device_002'', device_name = ''Fire Panel Main'', device_type = FIRE_PANEL,
       device_status = ONLINE, lastUpdate = t2,
       metadata = \<lparr>location = Some ''Control Room'', manufacturer = Some ''SafeCorp'',
                   model = Some ''FP-200'', version = Some ''2.1.0''\<rparr>\<rparr>]"

definition seedData :: "store world \<Rightarrow> store world" where
  "seedData w =
     (let (t1, w1) = new_Date w;
          (t2, w2) = new_Date w1;
          w3 = w2\<lparr>devices := fold (\<lambda>device m. Map_set m (device_id device) device)
                              (sampleDevices t1 t2) (devices w2)\<rparr>
      in logger_info ''Sample data seeded'' w3)"

text \<open>
  The constructor: an empty \<open>Map\<close>, then \<open>seedData\<close>. The argument supplies the logger,
  the clock and the random source the instance lives with.
\<close>

definition new_InMemoryDeviceRepository :: "'r world \<Rightarrow> store world" where
  "new_InMemoryDeviceRepository w =
     seedData \<lparr>devices = [], logs = logs w, clock = clock w, ticks = ticks w,
               random = random w, draws = draws w\<rparr>"

text \<open>
  The repository as the service sees it: the interface \<open>IRepository\<close> of devices, a
  record of operations on a backing store of any type.
\<close>

record 'r IRepository =
  repo_findById :: "string \<Rightarrow> 'r world \<Rightarrow> Device option \<times> 'r world"
  repo_findAll :: "'r world \<Rightarrow> Device list \<times> 'r world"
  repo_create :: "DeviceData \<Rightarrow> 'r world \<Rightarrow> Device \<times> 'r world"
  repo_update :: "string \<Rightarrow> PartialDevice \<Rightarrow> 'r world \<Rightarrow> Device option \<times> 'r world"
  repo_delete :: "string \<Rightarrow> 'r world \<Rightarrow> bool \<times> 'r world"

definition InMemoryDeviceRepository :: "store IRepository" where
  "InMemoryDeviceRepository =
     \<lparr>repo_findById = findById, repo_findAll = findAll, repo_create = create,
      repo_update = update, repo_delete = delete\<rparr>"

section \<open>Validation (utils/validation.ts)\<close>

text \<open>
  \<open>deviceUpdateSchema.parse\<close>. The schema library is not part of the repository; its
  parser is written out here for this one schema: an object schema reads each declared
  key of the input (a key that is missing is accepted by \<open>optional()\<close>), drops every
  other key, and collects the issues of all keys in the order of declaration. An object
  is the list of its properties, looked up by key with \<open>map_of\<close>. The message texts are
  those of version 3 of the library; nothing below depends on them.
\<close>

record zod_issue =
  issue_path :: "string list"
  issue_message :: string

definition json_type :: "json \<Rightarrow> string" where
  "json_type v =
     (case v of JNull \<Rightarrow> ''null'' | JBool _ \<Rightarrow> ''boolean'' | JNumber _ \<Rightarrow> ''number''
      | JString _ \<Rightarrow> ''string'' | JArray _ \<Rightarrow> ''array'' | JObject _ \<Rightarrow> ''object'')"

definition invalid_type :: "string \<Rightarrow> string list \<Rightarrow> json \<Rightarrow> zod_issue" where
  "invalid_type expected path v =
     \<lparr>issue_path = path,
      issue_message = ''Expected '' @ expected @ '', received '' @ json_type v\<rparr>"

text \<open>\<open>z.string()\<close>\<close>

definition zod_string :: "string list \<Rightarrow> json \<Rightarrow> zod_issue list + string" where
  "zod_string path v =
     (case v of JString s \<Rightarrow> Inr s | _ \<Rightarrow> Inl [invalid_type ''string'' path v])"

text \<open>\<open>z.string().min(1).max(100)\<close>\<close>

definition zod_name :: "string list \<Rightarrow> json \<Rightarrow> zod_issue list + string" where
  "zod_name path v =
     (case v of
        JString s \<Rightarrow>
          (if length s < 1 then
             Inl [\<lparr>issue_path = path,
                   issue_message = ''String must contain at least 1 character(s)''\<rparr>]
           else if length s > 100 then
             Inl [\<lparr>issue_path = path,
                   issue_message = ''String must contain at most 100 character(s)''\<rparr>]
           else Inr s)
      | _ \<Rightarrow> Inl [invalid_type ''string'' path v])"

text \<open>\<open>z.enum(['ONLINE', 'OFFLINE', 'MAINTENANCE', 'ERROR'])\<close>\<close>

definition status_of_string :: "string \<Rightarrow> DeviceStatus option" where
  "status_of_string s =
     (if s = ''ONLINE'' then Some ONLINE
      else if s = ''OFFLINE'' then Some OFFLINE
      else if s = ''MAINTENANCE'' then Some MAINTENANCE
      else if s = ''ERROR'' then Some ERROR
      else None)"

definition enum_options :: string where
  "enum_options =
     [CHR 0x27] @ ''ONLINE'' @ [CHR 0x27] @ '' | '' @ [CHR 0x27] @ ''OFFLINE'' @ [CHR 0x27] @ '' | ''
     @ [CHR 0x27] @ ''MAINTENANCE'' @ [CHR 0x27] @ '' | '' @ [CHR 0x27] @ ''ERROR'' @ [CHR 0x27]"

definition zod_status :: "string list \<Rightarrow> json \<Rightarrow> zod_issue list + DeviceStatus" where
  "zod_status path v =
     (case v of
        JString s \<Rightarrow>
          (case status_of_string s of
             Some st \<Rightarrow> Inr st
           | None \<Rightarrow>
               Inl [\<lparr>issue_path = path,
                     issue_message = ''Invalid enum value. Expected '' @ enum_options
                       @ '', received '' @ [CHR 0x27] @ s @ [CHR 0x27]\<rparr>])
      | _ \<Rightarrow> Inl [invalid_type enum_options path v])"

text \<open>\<open>.optional()\<close>: a missing key parses to an absent field.\<close>

definition zod_optional ::
  "(string list \<Rightarrow> json \<Rightarrow> zod_issue list + 'a) \<Rightarrow> string list \<Rightarrow> json option
   \<Rightarrow> zod_issue list + 'a option" where
  "zod_optional p path v =
     (case v of
        None \<Rightarrow> Inr None
      | Some x \<Rightarrow> (case p path x of Inl iss \<Rightarrow> Inl iss | Inr y \<Rightarrow> Inr (Some y)))"

definition issues_of :: "zod_issue list + 'a \<Rightarrow> zod_issue list" where
  "issues_of r = (case r of Inl iss \<Rightarrow> iss | Inr _ \<Rightarrow> [])"

text \<open>The \<open>metadata\<close> object schema.\<close>

definition zod_metadata :: "string list \<Rightarrow> json \<Rightarrow> zod_issue list + DeviceMetadata" where
  "zod_metadata path v =
     (case v of
        JObject kvs \<Rightarrow>
          (let rl = zod_optional zod_string (path @ [''location'']) (map_of kvs ''location'');
               rf = zod_optional zod_string (path @ [''manufacturer'']) (map_of kvs ''manufacturer'');
               rm = zod_optional zod_string (path @ [''model'']) (map_of kvs ''model'');
               rv = zod_optional zod_string (path @ [''version'']) (map_of kvs ''version'')
           in case (rl, rf, rm, rv) of
                (Inr l, Inr f, Inr m, Inr vs) \<Rightarrow>
                  Inr \<lparr>location = l, manufacturer = f, model = m, version = vs\<rparr>
              | _ \<Rightarrow> Inl (issues_of rl @ issues_of rf @ issues_of rm @ issues_of rv))
      | _ \<Rightarrow> Inl [invalid_type ''object'' path v])"

definition deviceUpdateSchema_parse :: "json \<Rightarrow> zod_issue list + DeviceUpdateRequest" where
  "deviceUpdateSchema_parse d =
     (case d of
        JObject kvs \<Rightarrow>
          (let rn = zod_optional zod_name [''name''] (map_of kvs ''name'');
               rs = zod_optional zod_status [''status''] (map_of kvs ''status'');
               rm = zod_optional zod_metadata [''metadata''] (map_of kvs ''metadata'')
           in case (rn, rs, rm) of
                (Inr n, Inr s, Inr m) \<Rightarrow> Inr \<lparr>req_name = n, req_status = s, req_metadata = m\<rparr>
              | _ \<Rightarrow> Inl (issues_of rn @ issues_of rs @ issues_of rm))
      | _ \<Rightarrow> Inl [invalid_type ''object'' [] d])"

text \<open>\<open>Array.prototype.join\<close> on a list of strings.\<close>

fun join :: "string \<Rightarrow> string list \<Rightarrow> string" where
  "join sep [] = []"
| "join sep [x] = x"
| "join sep (x # y # ys) = x @ sep @ join sep (y # ys)"

text \<open>
  \<open>ValidationService.validateDeviceUpdate\<close>. The parser fails with a \<open>ZodError\<close> only,
  so the second \<open>throw\<close> of the source (for any other exception) has no branch here.
  \<open>a || b\<close> on strings yields \<open>b\<close> when \<open>a\<close> is empty; \<open>issues[0]?.\<close> yields
  \<open>undefined\<close> on an empty list of issues.
\<close>

definition validateDeviceUpdate :: "json \<Rightarrow> js_error + DeviceUpdateRequest" where
  "validateDeviceUpdate d =
     (case deviceUpdateSchema_parse d of
        Inr v \<Rightarrow> Inr v
      | Inl issues \<Rightarrow>
          (let field = (case issues of
                          [] \<Rightarrow> ''unknown''
                        | i # _ \<Rightarrow> (if join ''.'' (issue_path i) = [] then ''unknown''
                                    else join ''.'' (issue_path i)));
               msg = (case issues of
                        [] \<Rightarrow> ''Validation failed''
                      | i # _ \<Rightarrow> (if issue_message i = [] then ''Validation failed''
                                  else issue_message i))
           in Inl (new_ValidationError (''Invalid '' @ field @ '': '' @ msg) (Some field))))"

text \<open>
  \<open>ValidationService.isValidId\<close>. The argument is a string by its type, so the
  \<open>typeof\<close> test of the source is true.
\<close>

definition isValidId :: "string \<Rightarrow> bool" where
  "isValidId ident = (length ident > 0 \<and> length ident \<le> 36)"

section \<open>The response envelope (utils/response.ts)\<close>

definition ResponseBuilder_success :: "'a \<Rightarrow> 'r world \<Rightarrow> 'a ApiResponse \<times> 'r world" where
  "ResponseBuilder_success d w =
     (let (now, w1) = new_Date w
      in (\<lparr>success = True, data = Some d, error = None, timestamp = now\<rparr>, w1))"

definition ResponseBuilder_error :: "ApiError \<Rightarrow> 'r world \<Rightarrow> 'a ApiResponse \<times> 'r world" where
  "ResponseBuilder_error e w =
     (let (now, w1) = new_Date w
      in (\<lparr>success = False, data = None, error = Some e, timestamp = now\<rparr>, w1))"

definition ResponseBuilder_fromError :: "js_error \<Rightarrow> 'r world \<Rightarrow> 'a ApiResponse \<times> 'r world" where
  "ResponseBuilder_fromError e w =
     (let apiError = \<lparr>code = err_name e, message = err_message e, details = None\<rparr>
      in ResponseBuilder_error apiError w)"

section \<open>The service (services/device.service.ts)\<close>

record 'r IDeviceService =
  svc_getDevice :: "string \<Rightarrow> 'r world \<Rightarrow> (js_error + Device) \<times> 'r world"
  svc_updateDevice :: "string \<Rightarrow> json \<Rightarrow> 'r world \<Rightarrow> (js_error + Device) \<times> 'r world"
  svc_listDevices :: "'r world \<Rightarrow> (js_error + Device list) \<times> 'r world"

definition validateId :: "string \<Rightarrow> js_error + unit" where
  "validateId ident =
     (if \<not> isValidId ident
      then Inl (new_ValidationError ''Invalid device ID format'' (Some ''id''))
      else Inr ())"

definition getDevice :: "'r IRepository \<Rightarrow> string \<Rightarrow> 'r world \<Rightarrow> (js_error + Device) \<times> 'r world" where
  "getDevice R ident w =
     (case validateId ident of
        Inl e \<Rightarrow> (Inl e, w)
      | Inr _ \<Rightarrow>
          (let (device, w1) = repo_findById R ident w
           in case device of
                None \<Rightarrow> (Inl (new_NotFoundError ''Device'' ident), w1)
              | Some d \<Rightarrow> (Inr d, logger_info ''Device retrieved'' w1)))"

definition updateDevice ::
  "'r IRepository \<Rightarrow> string \<Rightarrow> json \<Rightarrow> 'r world \<Rightarrow> (js_error + Device) \<times> 'r world" where
  "updateDevice R ident updates w =
     (case validateId ident of
        Inl e \<Rightarrow> (Inl e, w)
      | Inr _ \<Rightarrow>
          (case validateDeviceUpdate updates of
             Inl e \<Rightarrow> (Inl e, w)
           | Inr validatedUpdates \<Rightarrow>
               (let (existingDevice, w1) = repo_findById R ident w
                in case existingDevice of
                     None \<Rightarrow> (Inl (new_NotFoundError ''Device'' ident), w1)
                   | Some _ \<Rightarrow>
                       (let (now, w2) = new_Date w1;
                            (updatedDevice, w3) =
                              repo_update R ident
                                \<lparr>upd_id = None, upd_name = req_name validatedUpdates,
                                 upd_type = None, upd_status = req_status validatedUpdates,
                                 upd_lastUpdate = Some now,
                                 upd_metadata = req_metadata validatedUpdates\<rparr> w2
                        in case updatedDevice of
                             None \<Rightarrow> (Inl (new_Error ''Failed to update device''), w3)
                           | Some d \<Rightarrow>
                               (Inr d, logger_info ''Device updated successfully'' w3)))))"

definition listDevices :: "'r IRepository \<Rightarrow> 'r world \<Rightarrow> (js_error + Device list) \<times> 'r world" where
  "listDevices R w =
     (let (devs, w1) = repo_findAll R w
      in (Inr devs, logger_info ''Devices listed'' w1))"

definition DeviceService :: "'r IRepository \<Rightarrow> 'r IDeviceService" where
  "DeviceService R =
     \<lparr>svc_getDevice = getDevice R, svc_updateDevice = updateDevice R,
      svc_listDevices = listDevices R\<rparr>"

section \<open>The controller (controllers/device.controller.ts)\<close>

text \<open>
  Each method is a \<open>try\<close> around the service call with a \<open>catch\<close> of every error. The
  request record is passed by its fields.
\<close>

definition DeviceController_getDevice ::
  "'r IDeviceService \<Rightarrow> string \<Rightarrow> 'r world \<Rightarrow> Device ApiResponse \<times> 'r world" where
  "DeviceController_getDevice S ident w =
     (case svc_getDevice S ident w of
        (Inr device, w1) \<Rightarrow> ResponseBuilder_success device w1
      | (Inl e, w1) \<Rightarrow> ResponseBuilder_fromError e (logger_error ''Failed to get device'' w1))"

definition DeviceController_updateDevice ::
  "'r IDeviceService \<Rightarrow> string \<Rightarrow> json \<Rightarrow> 'r world \<Rightarrow> Device ApiResponse \<times> 'r world" where
  "DeviceController_updateDevice S ident body w =
     (case svc_updateDevice S ident body w of
        (Inr device, w1) \<Rightarrow> ResponseBuilder_success device w1
      | (Inl e, w1) \<Rightarrow> ResponseBuilder_fromError e (logger_error ''Failed to update device'' w1))"

definition DeviceController_listDevices ::
  "'r IDeviceService \<Rightarrow> 'r world \<Rightarrow> Device list ApiResponse \<times> 'r world" where
  "DeviceController_listDevices S w =
     (case svc_listDevices S w of
        (Inr devs, w1) \<Rightarrow> ResponseBuilder_success devs w1
      | (Inl e, w1) \<Rightarrow> ResponseBuilder_fromError e (logger_error ''Failed to list devices'' w1))"

section \<open>Callers and fixtures\<close>


text \<open>
  The shape of an envelope: the \<open>success\<close> flag decides which of \<open>data\<close> and \<open>error\<close>
  is present.
\<close>

definition well_formed_envelope :: "'a ApiResponse \<Rightarrow> bool" where
  "well_formed_envelope r =
     ((success r \<longrightarrow> data r \<noteq> None \<and> error r = None)
      \<and> (\<not> success r \<longrightarrow> error r \<noteq> None \<and> data r = None))"

text \<open>
  Two environments: one whose clock advances by a millisecond at every reading, one whose
  clock stands still across readings (several readings within the same millisecond). In
  both, \<open>Math.random()\<close> returns \<open>0.5\<close> every time, whose base-36 rendering is \<open>0.i\<close>.
\<close>

definition ticking_world :: "unit world" where
  "ticking_world =
     \<lparr>devices = (), logs = [], clock = (\<lambda>k. 1762041600000 + k), ticks = 0,
      random = (\<lambda>k. ''i''), draws = 0\<rparr>"


text \<open>The partial update \<open>{}\<close>.\<close>

definition no_fields :: PartialDevice where
  "no_fields = \<lparr>upd_id = None, upd_name = None, upd_type = None, upd_status = None,
                 upd_lastUpdate = None, upd_metadata = None\<rparr>"


text \<open>A store that holds an entity under an identifier of 37 characters.\<close>

definition overlong_id :: string where
  "overlong_id = replicate 37 CHR ''x''"

definition overlong_device :: Device where
  "overlong_device =
     \<lparr>device_id = overlong_id, device_name = ''Pump P1'', device_type = PUMP,
      device_status = OFFLINE, lastUpdate = 1762041600000,
      metadata = \<lparr>location = None, manufacturer = None, model = None, version = None\<rparr>\<rparr>"

definition overlong_world :: "store world" where
  "overlong_world =
     \<lparr>devices = [(overlong_id, overlong_device)], logs = [],
      clock = (\<lambda>k. 1762041600000 + k), ticks = 0, random = (\<lambda>k. ''i''), draws = 0\<rparr>"

text \<open>
  A repository whose \<open>update\<close> reports absence although \<open>findById\<close> finds the entity:
  the situation the guard after the service's \<open>update\<close> call is written for.
\<close>

definition vanishing_repository :: "store IRepository" where
  "vanishing_repository =
     InMemoryDeviceRepository\<lparr>repo_update := (\<lambda>ident updates w. (None, w))\<rparr>"

section \<open>Facts about the store\<close>

lemma Map_get_set: "Map_get (Map_set m k v) k' = (if k' = k then Some v else Map_get m k')"
  by (induction m) (auto simp: Map_get_def)




lemma Map_get_None_iff: "Map_get m k = None \<longleftrightarrow> k \<notin> fst ` set m"
  by (simp add: Map_get_def map_of_eq_None_iff)

lemma Map_get_delete: "Map_get (snd (Map_delete m k)) k = None"
  unfolding Map_get_None_iff by (auto simp: Map_delete_def)

lemma seeded_devices:
  "devices (new_InMemoryDeviceRepository w) =
     map (\<lambda>d. (device_id d, d)) (sampleDevices (clock w (ticks w)) (clock w (Suc (ticks w))))"
  by (simp add: new_InMemoryDeviceRepository_def seedData_def new_Date_def logger_info_def
      sampleDevices_def)

lemma update_found:
  assumes "Map_get (devices w) ident = Some e"
  shows "update ident p w =
     (Some ((spread e p)\<lparr>device_id := ident, lastUpdate := clock w (ticks w)\<rparr>),
      logger_info ''Device updated''
        (w\<lparr>ticks := Suc (ticks w),
           devices := Map_set (devices w) ident
                     ((spread e p)\<lparr>device_id := ident, lastUpdate := clock w (ticks w)\<rparr>)\<rparr>))"
  using assms by (simp add: update_def new_Date_def Let_def)


lemma delete_missing:
  assumes "Map_get (devices w) ident = None"
  shows "delete ident w = (False, w)"
proof -
  from assms have k: "ident \<notin> fst ` set (devices w)"
    by (simp add: Map_get_None_iff)
  then have "\<forall>kv \<in> set (devices w). fst kv \<noteq> ident"
    by auto
  then have "filter (\<lambda>kv. fst kv \<noteq> ident) (devices w) = devices w"
    by (simp only: filter_True)
  with k show ?thesis
    by (simp add: delete_def Map_delete_def)
qed

lemma devices_delete: "devices (snd (delete ident w)) = snd (Map_delete (devices w) ident)"
  by (simp add: delete_def Map_delete_def logger_info_def Let_def)

section \<open>Facts about generated identifiers\<close>





















section \<open>Facts about errors, validation and envelopes\<close>

lemma err_class_simps:
  "err_class (new_Error m) = PlainError"
  "err_class (new_ValidationError m f) = ValidationErrorClass"
  "err_class (new_NotFoundError r i) = NotFoundErrorClass"
  "err_name (new_Error m) = ''Error''"
  "err_name (new_ValidationError m f) = ''ValidationError''"
  "err_name (new_NotFoundError r i) = ''NotFoundError''"
  by (simp_all add: new_Error_def new_DomainError_def new_ValidationError_def new_NotFoundError_def)

lemma validateDeviceUpdate_error:
  "validateDeviceUpdate d = Inl e \<Longrightarrow>
     err_class e = ValidationErrorClass \<and> err_name e = ''ValidationError''"
  by (auto simp: validateDeviceUpdate_def Let_def err_class_simps split: sum.splits)

lemma status_outside_enum:
  assumes "v \<notin> JString ` {''ONLINE'', ''OFFLINE'', ''MAINTENANCE'', ''ERROR''}"
  shows "\<exists>iss. zod_status path v = Inl iss"
proof (cases v)
  case (JString s)
  with assms have "status_of_string s = None"
    by (auto simp: status_of_string_def)
  with JString show ?thesis
    by (simp add: zod_status_def)
qed (simp_all add: zod_status_def)

lemma parse_rejects_status:
  assumes "map_of kvs ''status'' = Some v"
    and "v \<notin> JString ` {''ONLINE'', ''OFFLINE'', ''MAINTENANCE'', ''ERROR''}"
  shows "\<exists>iss. deviceUpdateSchema_parse (JObject kvs) = Inl iss"
proof -
  from status_outside_enum[OF assms(2)] obtain iss where "zod_status [''status''] v = Inl iss"
    by blast
  with assms(1) have "zod_optional zod_status [''status''] (map_of kvs ''status'') = Inl iss"
    by (simp add: zod_optional_def)
  then show ?thesis
    by (simp add: deviceUpdateSchema_parse_def Let_def split: sum.splits)
qed

lemma validate_status_only:
  "validateDeviceUpdate (JObject [(''status'', JString ''MAINTENANCE'')])
     = Inr \<lparr>req_name = None, req_status = Some MAINTENANCE, req_metadata = None\<rparr>"
  by (simp add: validateDeviceUpdate_def deviceUpdateSchema_parse_def zod_optional_def
      zod_status_def status_of_string_def Let_def)

lemma envelope_success:
  "success (fst (ResponseBuilder_success d w)) \<and> data (fst (ResponseBuilder_success d w)) = Some d
   \<and> error (fst (ResponseBuilder_success d w)) = None"
  by (simp add: ResponseBuilder_success_def new_Date_def)

lemma envelope_fromError:
  "\<not> success (fst (ResponseBuilder_fromError e w))
   \<and> data (fst (ResponseBuilder_fromError e w)) = None
   \<and> error (fst (ResponseBuilder_fromError e w)) \<noteq> None"
  by (simp add: ResponseBuilder_fromError_def ResponseBuilder_error_def new_Date_def)

lemma getDevice_envelope: "well_formed_envelope (fst (DeviceController_getDevice S ident w))"
proof (cases "svc_getDevice S ident w")
  case (Pair r w1)
  then show ?thesis
    by (cases r)
      (simp_all add: DeviceController_getDevice_def well_formed_envelope_def
        envelope_success envelope_fromError)
qed

lemma updateDevice_envelope:
  "well_formed_envelope (fst (DeviceController_updateDevice S ident body w))"
proof (cases "svc_updateDevice S ident body w")
  case (Pair r w1)
  then show ?thesis
    by (cases r)
      (simp_all add: DeviceController_updateDevice_def well_formed_envelope_def
        envelope_success envelope_fromError)
qed

lemma listDevices_envelope: "well_formed_envelope (fst (DeviceController_listDevices S w))"
proof (cases "svc_listDevices S w")
  case (Pair r w1)
  then show ?thesis
    by (cases r)
      (simp_all add: DeviceController_listDevices_def well_formed_envelope_def
        envelope_success envelope_fromError)
qed

section \<open>Partial updates\<close>

text \<open>
  C1 (amended). For every device \<open>e\<close> stored in the repository under its id and every
  partial update \<open>p\<close>, \<open>update (device_id e) p\<close> returns a device whose name, type,
  status and metadata are those of \<open>p\<close> where \<open>p\<close> provides them and those of \<open>e\<close> where
  it does not; whose id is that of \<open>e\<close>, also when \<open>p\<close> carries an id; and whose
  \<open>lastUpdate\<close> is the reading of the clock taken by the repository, whatever \<open>e\<close> and
  \<open>p\<close> hold there. The record stored under the id of \<open>e\<close> afterwards is the returned
  device.
\<close>

theorem update_merges_and_restamps:
  assumes "Map_get (devices w) (device_id e) = Some e"
  shows "\<exists>d. fst (update (device_id e) p w) = Some d
     \<and> device_id d = device_id e
     \<and> device_name d = (case upd_name p of Some v \<Rightarrow> v | None \<Rightarrow> device_name e)
     \<and> device_type d = (case upd_type p of Some v \<Rightarrow> v | None \<Rightarrow> device_type e)
     \<and> device_status d = (case upd_status p of Some v \<Rightarrow> v | None \<Rightarrow> device_status e)
     \<and> metadata d = (case upd_metadata p of Some v \<Rightarrow> v | None \<Rightarrow> metadata e)
     \<and> lastUpdate d = clock w (ticks w)
     \<and> Map_get (devices (snd (update (device_id e) p w))) (device_id e) = Some d"
  unfolding update_found[OF assms]
  by (simp add: spread_def logger_info_def Map_get_set)

text \<open>
  On the seeded store, an update of \<open>device_001\<close> that sets the status and tries to set
  the id changes the status and keeps id and name.
\<close>

theorem update_merges_and_restamps_witness:
  "device_status (the (fst (update ''device_001''
       (no_fields\<lparr>upd_id := Some ''device_999'', upd_status := Some MAINTENANCE\<rparr>)
       (new_InMemoryDeviceRepository ticking_world)))) = MAINTENANCE
   \<and> device_id (the (fst (update ''device_001''
       (no_fields\<lparr>upd_id := Some ''device_999'', upd_status := Some MAINTENANCE\<rparr>)
       (new_InMemoryDeviceRepository ticking_world)))) = ''device_001''
   \<and> device_name (the (fst (update ''device_001''
       (no_fields\<lparr>upd_id := Some ''device_999'', upd_status := Some MAINTENANCE\<rparr>)
       (new_InMemoryDeviceRepository ticking_world)))) = ''Axial Fan A1''"
proof -
  let ?w = "new_InMemoryDeviceRepository ticking_world"
  let ?e = "hd (sampleDevices 1762041600000 1762041600001)"
  have h: "Map_get (devices ?w) (device_id ?e) = Some ?e"
    by (simp add: seeded_devices sampleDevices_def Map_get_def ticking_world_def)
  have i: "device_id ?e = ''device_001''" "device_name ?e = ''Axial Fan A1''"
    by (simp_all add: sampleDevices_def)
  from update_merges_and_restamps[OF h,
      of "no_fields\<lparr>upd_id := Some ''device_999'', upd_status := Some MAINTENANCE\<rparr>"]
  show ?thesis
    unfolding i by (auto simp: no_fields_def)
qed

text \<open>
  The claim as first stated fails: the update \<open>{}\<close> of the seeded \<open>device_001\<close>, which
  touches no field, returns a device that differs from the stored one in \<open>lastUpdate\<close>.
\<close>

theorem update_restamps_counterexample:
  "Map_get (devices (new_InMemoryDeviceRepository ticking_world)) ''device_001''
     = Some (hd (sampleDevices 1762041600000 1762041600001))
   \<and> fst (update ''device_001'' no_fields (new_InMemoryDeviceRepository ticking_world))
     = Some ((hd (sampleDevices 1762041600000 1762041600001))\<lparr>lastUpdate := 1762041600002\<rparr>)
   \<and> fst (update ''device_001'' no_fields (new_InMemoryDeviceRepository ticking_world))
     \<noteq> Some (hd (sampleDevices 1762041600000 1762041600001))"
  by (simp add: update_def new_InMemoryDeviceRepository_def seedData_def new_Date_def
      logger_info_def sampleDevices_def Map_get_def ticking_world_def no_fields_def spread_def
      Let_def)

section \<open>The controller's envelopes\<close>

text \<open>
  C2. Every controller method returns an envelope for every input and every service
  behind it (each method is a total function into envelopes: whatever the service
  raises is turned into a failure envelope). In the envelope returned, \<open>success\<close> false
  implies that \<open>error\<close> is present and \<open>data\<close> absent, and \<open>success\<close> true implies that
  \<open>data\<close> is present and \<open>error\<close> absent.
\<close>

theorem envelope_totality:
  "well_formed_envelope (fst (DeviceController_getDevice S ident w))
   \<and> well_formed_envelope (fst (DeviceController_updateDevice S ident body w))
   \<and> well_formed_envelope (fst (DeviceController_listDevices S w))"
  by (simp only: getDevice_envelope updateDevice_envelope listDevices_envelope)

text \<open>
  On the seeded store: an id that does not exist and a body that is not an object give
  failure envelopes, listing gives a success envelope.
\<close>

theorem envelope_totality_witness:
  "\<not> success (fst (DeviceController_getDevice (DeviceService InMemoryDeviceRepository)
        ''missing'' (new_InMemoryDeviceRepository ticking_world)))
   \<and> error (fst (DeviceController_getDevice (DeviceService InMemoryDeviceRepository)
        ''missing'' (new_InMemoryDeviceRepository ticking_world))) \<noteq> None
   \<and> data (fst (DeviceController_getDevice (DeviceService InMemoryDeviceRepository)
        ''missing'' (new_InMemoryDeviceRepository ticking_world))) = None
   \<and> \<not> success (fst (DeviceController_updateDevice (DeviceService InMemoryDeviceRepository)
        ''device_001'' (JString ''oops'') (new_InMemoryDeviceRepository ticking_world)))
   \<and> error (fst (DeviceController_updateDevice (DeviceService InMemoryDeviceRepository)
        ''device_001'' (JString ''oops'') (new_InMemoryDeviceRepository ticking_world))) \<noteq> None
   \<and> success (fst (DeviceController_listDevices (DeviceService InMemoryDeviceRepository)
        (new_InMemoryDeviceRepository ticking_world)))
   \<and> data (fst (DeviceController_listDevices (DeviceService InMemoryDeviceRepository)
        (new_InMemoryDeviceRepository ticking_world))) \<noteq> None"
proof -
  let ?S = "DeviceService InMemoryDeviceRepository"
  let ?w = "new_InMemoryDeviceRepository ticking_world"
  have g: "\<not> success (fst (DeviceController_getDevice ?S ''missing'' ?w))"
    by (simp add: DeviceController_getDevice_def DeviceService_def getDevice_def validateId_def
        isValidId_def InMemoryDeviceRepository_def findById_def logger_info_def Map_get_def
        seeded_devices sampleDevices_def envelope_fromError)
  have u: "\<not> success (fst (DeviceController_updateDevice ?S ''device_001'' (JString ''oops'') ?w))"
    by (simp add: DeviceController_updateDevice_def DeviceService_def updateDevice_def
        validateId_def isValidId_def validateDeviceUpdate_def deviceUpdateSchema_parse_def
        Let_def envelope_fromError)
  have l: "success (fst (DeviceController_listDevices ?S ?w))"
    by (simp add: DeviceController_listDevices_def DeviceService_def listDevices_def
        InMemoryDeviceRepository_def findAll_def Let_def envelope_success)
  from envelope_totality[of ?S "''missing''" ?w "JString ''oops''"]
    envelope_totality[of ?S "''device_001''" ?w "JString ''oops''"] g u l
  show ?thesis
    by (simp add: well_formed_envelope_def)
qed

section \<open>Absent identifiers\<close>

text \<open>
  C3. For an identifier that is well-formed and not in the store (never inserted, or
  deleted before) and a body that passes validation, the service's \<open>getDevice\<close> and
  \<open>updateDevice\<close> fail with \<open>NotFoundError\<close> and the repository's \<open>delete\<close> returns
  false; none of them changes the store, so nothing is created in passing. After
  \<open>delete\<close> of an identifier, that identifier is not in the store.
\<close>

theorem not_found_symmetry:
  "(Map_get (devices w) ident = None \<and> isValidId ident \<and> validateDeviceUpdate body = Inr v \<longrightarrow>
      fst (getDevice InMemoryDeviceRepository ident w) = Inl (new_NotFoundError ''Device'' ident)
      \<and> fst (updateDevice InMemoryDeviceRepository ident body w)
          = Inl (new_NotFoundError ''Device'' ident)
      \<and> err_class (new_NotFoundError ''Device'' ident) = NotFoundErrorClass
      \<and> delete ident w = (False, w)
      \<and> devices (snd (getDevice InMemoryDeviceRepository ident w)) = devices w
      \<and> devices (snd (updateDevice InMemoryDeviceRepository ident body w)) = devices w)
   \<and> Map_get (devices (snd (delete ident w))) ident = None"
proof -
  have "Map_get (devices (snd (delete ident w))) ident = None"
    by (simp only: devices_delete Map_get_delete)
  moreover have "delete ident w = (False, w)" if "Map_get (devices w) ident = None"
    using that by (rule delete_missing)
  ultimately show ?thesis
    by (simp add: getDevice_def updateDevice_def validateId_def InMemoryDeviceRepository_def
        findById_def logger_info_def err_class_simps Let_def)
qed

text \<open>
  On the seeded store, for the identifier the test suite uses and for \<open>device_001\<close>
  after its deletion.
\<close>

theorem not_found_symmetry_witness:
  "fst (getDevice InMemoryDeviceRepository ''non-existent-id''
          (new_InMemoryDeviceRepository ticking_world))
     = Inl (new_NotFoundError ''Device'' ''non-existent-id'')
   \<and> fst (updateDevice InMemoryDeviceRepository ''non-existent-id''
          (JObject [(''status'', JString ''MAINTENANCE'')])
          (new_InMemoryDeviceRepository ticking_world))
     = Inl (new_NotFoundError ''Device'' ''non-existent-id'')
   \<and> fst (delete ''non-existent-id'' (new_InMemoryDeviceRepository ticking_world)) = False
   \<and> fst (getDevice InMemoryDeviceRepository ''device_001''
          (snd (delete ''device_001'' (new_InMemoryDeviceRepository ticking_world))))
     = Inl (new_NotFoundError ''Device'' ''device_001'')"
proof -
  let ?w = "new_InMemoryDeviceRepository ticking_world"
  let ?body = "JObject [(''status'', JString ''MAINTENANCE'')]"
  let ?v = "\<lparr>req_name = None, req_status = Some MAINTENANCE, req_metadata = None\<rparr>"
  have a: "Map_get (devices ?w) ''non-existent-id'' = None"
    by (simp add: seeded_devices sampleDevices_def Map_get_def)
  have b: "isValidId ''non-existent-id''" "isValidId ''device_001''"
    by (simp_all add: isValidId_def)
  note c = validate_status_only
  from not_found_symmetry[of ?w "''device_001''" ?body ?v]
  have d: "Map_get (devices (snd (delete ''device_001'' ?w))) ''device_001'' = None"
    by simp
  from not_found_symmetry[of ?w "''non-existent-id''" ?body ?v]
    not_found_symmetry[of "snd (delete ''device_001'' ?w)" "''device_001''" ?body ?v]
    a b c d
  show ?thesis
    by simp
qed

section \<open>Validation before mutation\<close>

text \<open>
  C4. For every well-formed id and every raw update body that is an object whose
  \<open>status\<close> is not one of the four values of the status enum, the service's
  \<open>updateDevice\<close> fails with \<open>ValidationError\<close> and returns the state it was given:
  no repository operation has run, and a \<open>getDevice\<close> afterwards behaves exactly as
  one before. This holds for every repository behind the service.
\<close>

theorem invalid_status_rejected_before_mutation:
  assumes "isValidId ident"
    and "map_of kvs ''status'' = Some v"
    and "v \<notin> JString ` {''ONLINE'', ''OFFLINE'', ''MAINTENANCE'', ''ERROR''}"
  shows "(\<exists>e. updateDevice R ident (JObject kvs) w = (Inl e, w)
            \<and> err_class e = ValidationErrorClass \<and> err_name e = ''ValidationError'')
     \<and> getDevice R ident (snd (updateDevice R ident (JObject kvs) w)) = getDevice R ident w"
proof -
  from parse_rejects_status[OF assms(2,3)]
  obtain iss where "deviceUpdateSchema_parse (JObject kvs) = Inl iss"
    by blast
  then obtain e where e: "validateDeviceUpdate (JObject kvs) = Inl e"
    by (simp add: validateDeviceUpdate_def Let_def)
  with assms(1) have u: "updateDevice R ident (JObject kvs) w = (Inl e, w)"
    by (simp add: updateDevice_def validateId_def)
  with validateDeviceUpdate_error[OF e] show ?thesis
    by simp
qed

text \<open>The body \<open>{status: "NOT_A_REAL_STATUS"}\<close> for the seeded \<open>device_001\<close>.\<close>

theorem invalid_status_rejected_before_mutation_witness:
  "fst (updateDevice InMemoryDeviceRepository ''device_001''
          (JObject [(''status'', JString ''NOT_A_REAL_STATUS'')])
          (new_InMemoryDeviceRepository ticking_world))
     = Inl (new_ValidationError
             (''Invalid status: Invalid enum value. Expected '' @ enum_options
                @ '', received '' @ [CHR 0x27] @ ''NOT_A_REAL_STATUS'' @ [CHR 0x27])
             (Some ''status''))
   \<and> snd (updateDevice InMemoryDeviceRepository ''device_001''
          (JObject [(''status'', JString ''NOT_A_REAL_STATUS'')])
          (new_InMemoryDeviceRepository ticking_world))
     = new_InMemoryDeviceRepository ticking_world"
proof -
  have a: "isValidId ''device_001''"
    by (simp add: isValidId_def)
  have b: "map_of [(''status'', JString ''NOT_A_REAL_STATUS'')] ''status''
             = Some (JString ''NOT_A_REAL_STATUS'')"
    by simp
  have c: "JString ''NOT_A_REAL_STATUS''
             \<notin> JString ` {''ONLINE'', ''OFFLINE'', ''MAINTENANCE'', ''ERROR''}"
    by simp
  have d: "validateDeviceUpdate (JObject [(''status'', JString ''NOT_A_REAL_STATUS'')])
     = Inl (new_ValidationError
             (''Invalid status: Invalid enum value. Expected '' @ enum_options
                @ '', received '' @ [CHR 0x27] @ ''NOT_A_REAL_STATUS'' @ [CHR 0x27])
             (Some ''status''))"
    by (simp add: validateDeviceUpdate_def deviceUpdateSchema_parse_def zod_optional_def
        zod_status_def status_of_string_def issues_of_def Let_def)
  from invalid_status_rejected_before_mutation[OF a b c, of InMemoryDeviceRepository
      "new_InMemoryDeviceRepository ticking_world"]
  show ?thesis
    using a d by (auto simp: updateDevice_def validateId_def)
qed

section \<open>Identifiers\<close>




section \<open>Errors in envelopes\<close>

text \<open>
  C6. For every error, \<open>ResponseBuilder.fromError\<close> returns a failure envelope whose
  \<open>error\<close> is exactly the error's name as \<open>code\<close> and the error's message as \<open>message\<close>,
  with no \<open>details\<close>: whatever the error holds as class, \<open>code\<close>, \<open>statusCode\<close> or
  \<open>field\<close> has no effect on the envelope.
\<close>

theorem fromError_keeps_name_and_message_only:
  "fst (ResponseBuilder_fromError err w) =
     \<lparr>success = False, data = None,
      error = Some \<lparr>code = err_name err, message = err_message err, details = None\<rparr>,
      timestamp = clock w (ticks w)\<rparr>
   \<and> fst (ResponseBuilder_fromError
            (err\<lparr>err_class := c, err_code := ec, err_statusCode := sc, err_field := f\<rparr>) w)
       = fst (ResponseBuilder_fromError err w)"
  by (simp add: ResponseBuilder_fromError_def ResponseBuilder_error_def new_Date_def)

section \<open>Malformed identifiers\<close>

text \<open>
  C7. \<open>isValidId\<close> holds exactly of the non-empty strings of at most 36 characters. For
  every other id the service's \<open>getDevice\<close> fails with \<open>ValidationError\<close> and returns
  the state it was given, so no repository query has run; this does not depend on the
  repository or on what the store holds.
\<close>

theorem malformed_id_rejected_first:
  "(isValidId ident \<longleftrightarrow> ident \<noteq> [] \<and> length ident \<le> 36)
   \<and> (\<not> (ident \<noteq> [] \<and> length ident \<le> 36) \<longrightarrow>
        getDevice R ident w = (Inl (new_ValidationError ''Invalid device ID format'' (Some ''id'')), w)
        \<and> err_class (new_ValidationError ''Invalid device ID format'' (Some ''id''))
            = ValidationErrorClass)"
  by (auto simp: isValidId_def getDevice_def validateId_def err_class_simps)

text \<open>
  An id of 37 characters under which the store holds an entity, and the empty id of
  the test suite.
\<close>

theorem malformed_id_rejected_first_witness:
  "Map_get (devices overlong_world) overlong_id = Some overlong_device
   \<and> getDevice InMemoryDeviceRepository overlong_id overlong_world
       = (Inl (new_ValidationError ''Invalid device ID format'' (Some ''id'')), overlong_world)
   \<and> fst (getDevice InMemoryDeviceRepository [] overlong_world)
       = Inl (new_ValidationError ''Invalid device ID format'' (Some ''id''))"
proof -
  have a: "\<not> (overlong_id \<noteq> [] \<and> length overlong_id \<le> 36)"
    by (simp add: overlong_id_def)
  have b: "\<not> (([]::string) \<noteq> [] \<and> length ([]::string) \<le> 36)"
    by simp
  have c: "Map_get (devices overlong_world) overlong_id = Some overlong_device"
    by (simp add: overlong_world_def Map_get_def)
  from malformed_id_rejected_first[of overlong_id InMemoryDeviceRepository overlong_world]
    malformed_id_rejected_first[of "[]" InMemoryDeviceRepository overlong_world] a b c
  show ?thesis by simp
qed

section \<open>Absence at apply time\<close>

text \<open>
  C8. In the service's \<open>updateDevice\<close>, for every repository: when the existence check
  finds the entity and the repository's \<open>update\<close> that follows reports absence, the
  call fails, and it fails with the plain \<open>Error\<close> "Failed to update device", not with a
  \<open>NotFoundError\<close>.
\<close>

theorem vanished_at_apply_is_internal_fault:
  assumes "isValidId ident"
    and "validateDeviceUpdate body = Inr v"
    and "repo_findById R ident w = (Some d0, w1)"
    and "fst (repo_update R ident
            \<lparr>upd_id = None, upd_name = req_name v, upd_type = None, upd_status = req_status v,
             upd_lastUpdate = Some (clock w1 (ticks w1)), upd_metadata = req_metadata v\<rparr>
            (w1\<lparr>ticks := Suc (ticks w1)\<rparr>)) = None"
  shows "fst (updateDevice R ident body w) = Inl (new_Error ''Failed to update device'')
     \<and> err_class (new_Error ''Failed to update device'') = PlainError
     \<and> err_name (new_Error ''Failed to update device'') = ''Error''
     \<and> fst (updateDevice R ident body w) \<noteq> Inl (new_NotFoundError ''Device'' ident)"
proof -
  have "fst (updateDevice R ident body w) = Inl (new_Error ''Failed to update device'')"
    using assms
    by (auto simp: updateDevice_def validateId_def new_Date_def Let_def split: prod.splits)
  moreover have "new_Error ''Failed to update device'' \<noteq> new_NotFoundError ''Device'' ident"
    by (simp add: new_Error_def new_NotFoundError_def new_DomainError_def)
  ultimately show ?thesis
    by (simp add: err_class_simps)
qed

text \<open>The seeded store behind a repository whose \<open>update\<close> always reports absence.\<close>

theorem vanished_at_apply_is_internal_fault_witness:
  "fst (updateDevice vanishing_repository ''device_001''
          (JObject [(''status'', JString ''MAINTENANCE'')])
          (new_InMemoryDeviceRepository ticking_world))
     = Inl (new_Error ''Failed to update device'')"
proof -
  let ?w = "new_InMemoryDeviceRepository ticking_world"
  have a: "isValidId ''device_001''"
    by (simp add: isValidId_def)
  note b = validate_status_only
  have c: "repo_findById vanishing_repository ''device_001'' ?w
     = (Some (hd (sampleDevices 1762041600000 1762041600001)),
        logger_info ''Finding device by ID'' ?w)"
    by (simp add: vanishing_repository_def InMemoryDeviceRepository_def findById_def
        logger_info_def Map_get_def seeded_devices sampleDevices_def ticking_world_def)
  have d: "fst (repo_update vanishing_repository ''device_001'' p w') = None" for p w'
    by (simp add: vanishing_repository_def)
  from vanished_at_apply_is_internal_fault[OF a b c d]
  show ?thesis by simp
qed

section \<open>Metadata\<close>

text \<open>
  C9. For every stored device and every update that carries a metadata object, the
  repository's \<open>update\<close> makes that object the device's whole metadata: each of
  \<open>location\<close>, \<open>manufacturer\<close>, \<open>model\<close> and \<open>version\<close> is afterwards what the update's
  metadata holds there, so a sub-field the update omits is absent afterwards whatever
  the device held before.
\<close>

theorem update_replaces_metadata_whole:
  assumes "Map_get (devices w) ident = Some e"
    and "upd_metadata p = Some m"
  shows "\<exists>d. fst (update ident p w) = Some d
     \<and> metadata d = m
     \<and> location (metadata d) = location m
     \<and> manufacturer (metadata d) = manufacturer m
     \<and> model (metadata d) = model m
     \<and> version (metadata d) = version m
     \<and> Map_get (devices (snd (update ident p w))) ident = Some d"
  unfolding update_found[OF assms(1)]
  using assms(2) by (simp add: spread_def logger_info_def Map_get_set)

text \<open>
  The seeded \<open>device_001\<close> has the location "Building A"; after an update whose
  metadata is \<open>{model: "AF-200"}\<close> it has no location.
\<close>

theorem update_replaces_metadata_whole_witness:
  "location (metadata (the (Map_get (devices (new_InMemoryDeviceRepository ticking_world))
       ''device_001''))) = Some ''Building A''
   \<and> location (metadata (the (fst (update ''device_001''
       (no_fields\<lparr>upd_metadata := Some \<lparr>location = None, manufacturer = None,
          model = Some ''AF-200'', version = None\<rparr>\<rparr>)
       (new_InMemoryDeviceRepository ticking_world))))) = None
   \<and> model (metadata (the (fst (update ''device_001''
       (no_fields\<lparr>upd_metadata := Some \<lparr>location = None, manufacturer = None,
          model = Some ''AF-200'', version = None\<rparr>\<rparr>)
       (new_InMemoryDeviceRepository ticking_world))))) = Some ''AF-200''"
proof -
  let ?w = "new_InMemoryDeviceRepository ticking_world"
  let ?e = "hd (sampleDevices 1762041600000 1762041600001)"
  let ?m = "\<lparr>location = None, manufacturer = None, model = Some ''AF-200'', version = None\<rparr>"
  have a: "Map_get (devices ?w) ''device_001'' = Some ?e"
    by (simp add: seeded_devices sampleDevices_def Map_get_def ticking_world_def)
  have b: "upd_metadata (no_fields\<lparr>upd_metadata := Some ?m\<rparr>) = Some ?m"
    by simp
  have c: "location (metadata ?e) = Some ''Building A''"
    by (simp add: sampleDevices_def)
  from update_replaces_metadata_whole[OF a b] a c
  show ?thesis by auto
qed

section \<open>The seeded store\<close>

text \<open>
  C10. A freshly constructed repository holds exactly the two seeded devices, with ids
  \<open>device_001\<close> and \<open>device_002\<close>: \<open>findAll\<close> on the new instance returns these two
  entities, and \<open>findById\<close> of \<open>device_001\<close> finds the first of them, with no \<open>create\<close>
  call before.
\<close>

theorem seeded_at_construction:
  "fst (findAll (new_InMemoryDeviceRepository w)) =
     sampleDevices (clock w (ticks w)) (clock w (Suc (ticks w)))
   \<and> map device_id (fst (findAll (new_InMemoryDeviceRepository w))) = [''device_001'', ''device_002'']
   \<and> map fst (devices (new_InMemoryDeviceRepository w)) = [''device_001'', ''device_002'']
   \<and> fst (findById ''device_001'' (new_InMemoryDeviceRepository w)) =
       Some (hd (sampleDevices (clock w (ticks w)) (clock w (Suc (ticks w)))))"
  by (simp add: findAll_def findById_def new_InMemoryDeviceRepository_def seedData_def
      new_Date_def logger_info_def sampleDevices_def Map_values_def Map_get_def)

end
